theory Spec2Isabelle
  imports Complex_Main
begin

section \<open>Python values, errors and strings\<close>

text \<open>
  The engine of SimpleFpCalc is the module \<^verbatim>\<open>fpcalc.py\<close>: three table lookups and
  three closed-form formulas. Numbers are modelled as HOL reals: Python's \<^verbatim>\<open>int\<close> and
  \<^verbatim>\<open>float\<close> both embed into them, and rounding of floats is not part of the model.
  Every exception the source can raise is a value \<open>Inl e\<close> of the result type.
\<close>

datatype py_error =
  IndexError | KeyError | AttributeError | TypeError | ZeroDivisionError | ValueError

text \<open>
  A cell of a reference table, as \<^verbatim>\<open>json.load\<close> delivers it: \<^verbatim>\<open>null\<close>, a number or a
  string. \<open>PComplex\<close> is the complex number Python's \<^verbatim>\<open>**\<close> returns for a negative base
  and a fractional exponent.
\<close>

datatype pyval = PNone | PNum real | PStr string | PComplex complex

text \<open>A table row is a Python \<^verbatim>\<open>dict\<close> with string keys; a table is a list of rows.\<close>

type_synonym row = "string \<rightharpoonup> pyval"

definition py_bind :: "py_error + 'a \<Rightarrow> ('a \<Rightarrow> py_error + 'b) \<Rightarrow> py_error + 'b" where
  "py_bind m f = (case m of Inl e \<Rightarrow> Inl e | Inr v \<Rightarrow> f v)"

text \<open>\<^verbatim>\<open>row[k]\<close>: a missing key raises \<^verbatim>\<open>KeyError\<close>.\<close>

definition getitem :: "row \<Rightarrow> string \<Rightarrow> py_error + pyval" where
  "getitem r k = (case r k of None \<Rightarrow> Inl KeyError | Some v \<Rightarrow> Inr v)"

text \<open>\<^verbatim>\<open>a / b\<close> on numbers: a zero divisor raises \<^verbatim>\<open>ZeroDivisionError\<close>.\<close>

definition py_div :: "real \<Rightarrow> real \<Rightarrow> py_error + real" where
  "py_div a b = (if b = 0 then Inl ZeroDivisionError else Inr (a / b))"

text \<open>\<^verbatim>\<open>math.sqrt(x)\<close>: a negative argument raises \<^verbatim>\<open>ValueError\<close>.\<close>

definition py_sqrt :: "real \<Rightarrow> py_error + real" where
  "py_sqrt x = (if x < 0 then Inl ValueError else Inr (sqrt x))"

text \<open>Truthiness, and \<^verbatim>\<open>v or d\<close>.\<close>

fun truthy :: "pyval \<Rightarrow> bool" where
  "truthy PNone = False"
| "truthy (PNum x) = (x \<noteq> 0)"
| "truthy (PStr s) = (s \<noteq> [])"
| "truthy (PComplex c) = (c \<noteq> 0)"

definition py_or :: "pyval \<Rightarrow> pyval \<Rightarrow> pyval" where
  "py_or v d = (if truthy v then v else d)"

text \<open>
  \<^verbatim>\<open>s.strip()\<close> and \<^verbatim>\<open>s.lower()\<close> on ASCII text: the whitespace of \<^verbatim>\<open>str.isspace\<close>
  below code 128 is 9 to 13 and 28 to 32; \<^verbatim>\<open>lower\<close> moves \<^verbatim>\<open>A\<close> to \<^verbatim>\<open>Z\<close> onto
  \<^verbatim>\<open>a\<close> to \<^verbatim>\<open>z\<close>. Characters from 128 on are left as they are.
\<close>

definition is_space :: "char \<Rightarrow> bool" where
  "is_space c = (let n = (of_char c :: nat) in (9 \<le> n \<and> n \<le> 13) \<or> (28 \<le> n \<and> n \<le> 32))"

definition strip :: "string \<Rightarrow> string" where
  "strip s = rev (dropWhile is_space (rev (dropWhile is_space s)))"

definition lower_char :: "char \<Rightarrow> char" where
  "lower_char c = (let n = (of_char c :: nat) in if 65 \<le> n \<and> n \<le> 90 then char_of (n + 32) else c)"

definition lower :: "string \<Rightarrow> string" where
  "lower s = map lower_char s"

text \<open>
  \<^verbatim>\<open>v.strip().lower()\<close> on a cell: only a string has the method \<^verbatim>\<open>strip\<close>; on
  \<^verbatim>\<open>None\<close> or a number the attribute lookup raises \<^verbatim>\<open>AttributeError\<close>.
\<close>

fun strip_lower :: "pyval \<Rightarrow> py_error + string" where
  "strip_lower (PStr s) = Inr (lower (strip s))"
| "strip_lower v = Inl AttributeError"

text \<open>
  \<^verbatim>\<open>hn ** x\<close> for a number \<open>hn\<close> and a cell \<open>x\<close>. A zero base with a negative exponent raises
  \<^verbatim>\<open>ZeroDivisionError\<close>; a negative base with a fractional exponent gives the complex number
  of modulus \<open>|hn| ** x\<close> and argument \<open>pi * x\<close>; an exponent that is no number raises
  \<^verbatim>\<open>TypeError\<close>.
\<close>

fun py_pow :: "real \<Rightarrow> pyval \<Rightarrow> py_error + pyval" where
  "py_pow b (PNum e) =
     (if e = 0 then Inr (PNum 1)
      else if b = 0 then (if e < 0 then Inl ZeroDivisionError else Inr (PNum 0))
      else if 0 < b then Inr (PNum (b powr e))
      else if e = of_int \<lfloor>e\<rfloor> then Inr (PNum (b powi \<lfloor>e\<rfloor>))
      else Inr (PComplex (Complex ((\<bar>b\<bar> powr e) * cos (pi * e)) ((\<bar>b\<bar> powr e) * sin (pi * e)))))"
| "py_pow b v = Inl TypeError"

text \<open>
  \<^verbatim>\<open>Ct * p\<close> for a cell \<open>Ct\<close> and the power \<open>p\<close> just computed. Numbers multiply; any other
  left operand is taken to raise \<^verbatim>\<open>TypeError\<close> (numbers are not split into \<^verbatim>\<open>int\<close> and
  \<^verbatim>\<open>float\<close> here, so Python's repetition of a string by an \<^verbatim>\<open>int\<close> is not modelled).
\<close>

fun py_mul :: "pyval \<Rightarrow> pyval \<Rightarrow> py_error + pyval" where
  "py_mul (PNum a) (PNum b) = Inr (PNum (a * b))"
| "py_mul (PNum a) (PComplex c) = Inr (PComplex (of_real a * c))"
| "py_mul (PComplex a) (PNum b) = Inr (PComplex (a * of_real b))"
| "py_mul (PComplex a) (PComplex c) = Inr (PComplex (a * c))"
| "py_mul v w = Inl TypeError"

section \<open>Building parameters: the table lookups\<close>

text \<open>
  \<^verbatim>\<open>get_sfrs_factors(sfrs_data, selected_sfrs)\<close>. The loop over the rows, for a key that
  is present:
\<close>

fun sfrs_rows :: "row list \<Rightarrow> string \<Rightarrow> py_error + (pyval \<times> pyval)" where
  "sfrs_rows [] sel = Inr (PNum 1, PNum 1)"
| "sfrs_rows (r # rs) sel =
     py_bind (getitem r ''SFRS'') (\<lambda>c.
     py_bind (strip_lower c) (\<lambda>name.
       if name = lower (strip sel)
       then py_bind (getitem r ''R'') (\<lambda>R.
            py_bind (getitem r ''Omega'') (\<lambda>Omega. Inr (R, Omega)))
       else sfrs_rows rs sel))"

definition get_sfrs_factors :: "row list \<Rightarrow> string option \<Rightarrow> py_error + (pyval \<times> pyval)" where
  "get_sfrs_factors sfrs_data selected_sfrs =
     (case selected_sfrs of
        None \<Rightarrow> Inr (PNone, PNone)
      | Some sel \<Rightarrow> sfrs_rows sfrs_data sel)"

text \<open>
  \<^verbatim>\<open>get_component_factors(component_data, component_name, location)\<close>. The name of the
  key column is read off the first row, \<^verbatim>\<open>component_data[0]\<close>, which raises
  \<^verbatim>\<open>IndexError\<close> on an empty table.
\<close>

fun component_rows :: "string \<Rightarrow> row list \<Rightarrow> string \<Rightarrow> string \<Rightarrow> py_error + (pyval \<times> pyval)" where
  "component_rows key [] cname location = Inr (PNum 1, PNum 1)"
| "component_rows key (r # rs) cname location =
     py_bind (getitem r key) (\<lambda>c.
     py_bind (strip_lower c) (\<lambda>name.
       if name = lower (strip cname)
       then py_bind (getitem r (if location = ''Supported Above Grade''
                                then ''CAR_above'' else ''CAR_below'')) (\<lambda>car.
            py_bind (getitem r ''Rpo'') (\<lambda>rpo.
              Inr (py_or car (PNum 1), py_or rpo (PNum 1.5))))
       else component_rows key rs cname location))"

definition get_component_factors ::
  "row list \<Rightarrow> string option \<Rightarrow> string \<Rightarrow> py_error + (pyval \<times> pyval)" where
  "get_component_factors component_data component_name location =
     (case component_name of
        None \<Rightarrow> Inr (PNum 1, PNum 1)
      | Some cname \<Rightarrow>
         (case component_data of
            [] \<Rightarrow> Inl IndexError
          | r0 # rest \<Rightarrow>
              component_rows
                (if r0 ''Component'' \<noteq> None then ''Component'' else ''Components'')
                component_data cname location))"

text \<open>\<^verbatim>\<open>calculate_ta(period_data, structure_type, hn)\<close>.\<close>

fun ta_rows :: "row list \<Rightarrow> string \<Rightarrow> real \<Rightarrow> py_error + (pyval \<times> pyval \<times> pyval)" where
  "ta_rows [] st hn = Inr (PNone, PNone, PNone)"
| "ta_rows (r # rs) st hn =
     py_bind (getitem r ''Structure Type '') (\<lambda>c.
     py_bind (strip_lower c) (\<lambda>name.
       if name = lower (strip st)
       then py_bind (getitem r ''Ct'') (\<lambda>Ct.
            py_bind (getitem r ''x'') (\<lambda>x.
            py_bind (py_pow hn x) (\<lambda>p.
            py_bind (py_mul Ct p) (\<lambda>Ta. Inr (Ta, Ct, x)))))
       else ta_rows rs st hn))"

definition calculate_ta ::
  "row list \<Rightarrow> string option \<Rightarrow> real \<Rightarrow> py_error + (pyval \<times> pyval \<times> pyval)" where
  "calculate_ta period_data structure_type hn =
     (case structure_type of
        None \<Rightarrow> Inr (PNone, PNone, PNone)
      | Some st \<Rightarrow> ta_rows period_data st hn)"

section \<open>Component parameters: the formulas\<close>

text \<open>
  \<^verbatim>\<open>calculate_hf(z, h, Ta)\<close> returns a triple on two of its branches and the bare
  number \<^verbatim>\<open>3.5\<close> on the third; the result type keeps the two shapes apart.
\<close>

datatype hf_result = HfTriple real "real option" "real option" | HfBare real

definition calculate_hf :: "real \<Rightarrow> real \<Rightarrow> real option \<Rightarrow> py_error + hf_result" where
  "calculate_hf z0 h Ta =
     (let z = (if z0 > h then h else z0) in
      case Ta of
        None \<Rightarrow> py_bind (py_div z h) (\<lambda>q. Inr (HfTriple (1 + 2.5 * q) None None))
      | Some ta \<Rightarrow>
          if ta \<le> 0 \<or> h \<le> 0 then Inr (HfBare 3.5)
          else
            py_bind (py_div 1 ta) (\<lambda>i.
            let a1 = min i 2.5 in
            py_bind (py_div 0.4 ta) (\<lambda>j.
            let a2 = max (1 - j ^ 2) 0 in
            py_bind (py_div z h) (\<lambda>q.
            py_bind (py_div z h) (\<lambda>q'.
              Inr (HfTriple (1 + a1 * q + a2 * q' ^ 10) (Some a1) (Some a2)))))))"

text \<open>
  \<^verbatim>\<open>calculate_rmu(R, Ie, Omega_0)\<close>: the body of the \<^verbatim>\<open>try\<close>, and the handler that
  catches \<^verbatim>\<open>ZeroDivisionError\<close> only.
\<close>

definition rmu_body :: "real \<Rightarrow> real \<Rightarrow> real \<Rightarrow> py_error + real" where
  "rmu_body R Ie Omega_0 =
     py_bind (py_div (1.1 * R) (Ie * Omega_0)) (\<lambda>q.
     py_bind (py_sqrt q) (\<lambda>rmu. Inr (max rmu 1.3)))"

definition calculate_rmu :: "real \<Rightarrow> real \<Rightarrow> real \<Rightarrow> py_error + real" where
  "calculate_rmu R Ie Omega_0 =
     (case rmu_body R Ie Omega_0 of
        Inl ZeroDivisionError \<Rightarrow> Inr 1.3
      | Inl e \<Rightarrow> Inl e
      | Inr v \<Rightarrow> Inr v)"

text \<open>\<^verbatim>\<open>calculate_fp_coeff(SDS, Ip, Wp, Hf, Rmu, CAR, Rpo)\<close> returns \<open>(Fp, Fp_calc, Fp_min, Fp_max)\<close>.\<close>

definition calculate_fp_coeff ::
  "real \<Rightarrow> real \<Rightarrow> real \<Rightarrow> real \<Rightarrow> real \<Rightarrow> real \<Rightarrow> real \<Rightarrow> py_error + (real \<times> real \<times> real \<times> real)" where
  "calculate_fp_coeff SDS Ip Wp Hf Rmu CAR Rpo =
     py_bind (py_div Hf Rmu) (\<lambda>a.
     py_bind (py_div CAR Rpo) (\<lambda>b.
       let Fp_calc = 0.4 * SDS * Ip * a * b;
           Fp_min = 0.3 * SDS * Ip;
           Fp_max = 1.6 * SDS * Ip;
           Fp = max (min Fp_calc Fp_max) Fp_min
       in Inr (Fp, Fp_calc, Fp_min, Fp_max)))"

text \<open>
  The clamp in the words of the specification: a value below the lower bound becomes the
  lower bound, one above the upper bound becomes the upper bound, any other is kept.
\<close>

definition clamp_spec :: "real \<Rightarrow> real \<Rightarrow> real \<Rightarrow> real" where
  "clamp_spec x lo hi = (if x < lo then lo else if hi < x then hi else x)"

section \<open>Coefficient assembly\<close>

lemma fp_coeff_returns:
  assumes "Rmu \<noteq> 0" "Rpo \<noteq> 0"
  shows "calculate_fp_coeff SDS Ip Wp Hf Rmu CAR Rpo =
     Inr (max (min (0.4 * SDS * Ip * (Hf / Rmu) * (CAR / Rpo)) (1.6 * SDS * Ip)) (0.3 * SDS * Ip),
          0.4 * SDS * Ip * (Hf / Rmu) * (CAR / Rpo), 0.3 * SDS * Ip, 1.6 * SDS * Ip)"
  using assms by (simp add: calculate_fp_coeff_def py_bind_def py_div_def Let_def)

lemma fp_coeff_raises:
  assumes "Rmu = 0 \<or> Rpo = 0"
  shows "calculate_fp_coeff SDS Ip Wp Hf Rmu CAR Rpo = Inl ZeroDivisionError"
  using assms by (auto simp: calculate_fp_coeff_def py_bind_def py_div_def)

lemma fp_bounds_ordered:
  assumes "0 \<le> SDS" "0 \<le> Ip"
  shows "0.3 * SDS * Ip \<le> 1.6 * SDS * (Ip::real)"
proof -
  have nn: "0 \<le> SDS * Ip" using assms by (rule mult_nonneg_nonneg)
  have "0.3 * (SDS * Ip) \<le> 1.6 * (SDS * Ip)"
    by (rule mult_right_mono) (simp_all add: nn)
  then show ?thesis by (simp only: mult.assoc)
qed

lemma max_min_clamp_spec:
  assumes "lo \<le> hi"
  shows "max (min x hi) lo = clamp_spec x lo hi"
  using assms by (simp add: clamp_spec_def max_def min_def)

lemma clamp_spec_bounds:
  assumes "lo \<le> hi"
  shows "lo \<le> clamp_spec x lo hi \<and> clamp_spec x lo hi \<le> hi"
  using assms by (simp add: clamp_spec_def)

text \<open>
  C1. For \<open>SDS \<ge> 0\<close> and \<open>Ip \<ge> 0\<close>, and divisors \<open>Rmu\<close> and \<open>Rpo\<close> that are not zero (the
  arithmetic is defined), \<open>calculate_fp_coeff\<close> returns a quadruple
  \<open>(Fp, Fp_calc, Fp_min, Fp_max)\<close> with
  \<open>Fp_calc = 0.4 * SDS * Ip * (Hf / Rmu) * (CAR / Rpo)\<close>, \<open>Fp_min = 0.3 * SDS * Ip\<close>,
  \<open>Fp_max = 1.6 * SDS * Ip\<close>, \<open>Fp_min \<le> Fp \<le> Fp_max\<close>, and \<open>Fp\<close> the clamp of \<open>Fp_calc\<close>
  to these two bounds.
\<close>

theorem calculate_fp_coeff_clamped:
  assumes "0 \<le> SDS" "0 \<le> Ip" "Rmu \<noteq> 0" "Rpo \<noteq> 0"
  shows "\<exists>Fp Fp_calc Fp_min Fp_max.
     calculate_fp_coeff SDS Ip Wp Hf Rmu CAR Rpo = Inr (Fp, Fp_calc, Fp_min, Fp_max) \<and>
     Fp_calc = 0.4 * SDS * Ip * (Hf / Rmu) * (CAR / Rpo) \<and>
     Fp_min = 0.3 * SDS * Ip \<and> Fp_max = 1.6 * SDS * Ip \<and>
     Fp_min \<le> Fp \<and> Fp \<le> Fp_max \<and> Fp = clamp_spec Fp_calc Fp_min Fp_max"
proof -
  let ?c = "0.4 * SDS * Ip * (Hf / Rmu) * (CAR / Rpo)"
  let ?lo = "0.3 * SDS * Ip"
  let ?hi = "1.6 * SDS * Ip"
  have le: "?lo \<le> ?hi" using assms(1,2) by (rule fp_bounds_ordered)
  have r: "calculate_fp_coeff SDS Ip Wp Hf Rmu CAR Rpo = Inr (clamp_spec ?c ?lo ?hi, ?c, ?lo, ?hi)"
    using fp_coeff_returns [OF assms(3,4)] max_min_clamp_spec [OF le] by simp
  from clamp_spec_bounds [OF le, of ?c]
  have b: "?lo \<le> clamp_spec ?c ?lo ?hi" "clamp_spec ?c ?lo ?hi \<le> ?hi" by blast+
  show ?thesis
  proof (intro exI conjI)
    show "calculate_fp_coeff SDS Ip Wp Hf Rmu CAR Rpo = Inr (clamp_spec ?c ?lo ?hi, ?c, ?lo, ?hi)"
      by (rule r)
  qed (rule refl b)+
qed

text \<open>
  At \<open>SDS = 1\<close>, \<open>Ip = 1.5\<close>, \<open>Hf = 3.5\<close>, \<open>Rmu = 1.3\<close>, \<open>CAR = 5\<close>, \<open>Rpo = 1\<close> the computed
  value \<open>105/13\<close> is cut down to the upper bound \<open>2.4\<close>.
\<close>

theorem calculate_fp_coeff_clamped_witness:
  "(0::real) \<le> 1 \<and> (0::real) \<le> 1.5 \<and> (1.3::real) \<noteq> 0 \<and> (1::real) \<noteq> 0 \<and>
   calculate_fp_coeff 1 1.5 1 3.5 1.3 5 1 = Inr (2.4, 105 / 13, 0.45, 2.4)"
  using calculate_fp_coeff_clamped [of 1 "1.5" "1.3" 1 1 "3.5" 5]
  by (simp add: calculate_fp_coeff_def py_bind_def py_div_def Let_def clamp_spec_def)

text \<open>
  C7, as the claim states it: \<open>Fp_min = 0.75 * Fp_max / 2\<close>. At \<open>SDS = Ip = 1\<close> the
  bounds are \<open>0.3\<close> and \<open>1.6\<close>, and \<open>0.75 * 1.6 / 2\<close> is \<open>0.6\<close>.
\<close>

theorem fp_min_three_quarters_counterexample:
  "calculate_fp_coeff 1 1 1 1 1 1 1 = Inr (0.4, 0.4, 0.3, 1.6) \<and> (0.3::real) \<noteq> 0.75 * 1.6 / 2"
  by (simp add: calculate_fp_coeff_def py_bind_def py_div_def Let_def)

text \<open>
  C7, amended. For \<open>SDS \<ge> 0\<close> and \<open>Ip \<ge> 0\<close> (and divisors that are not zero) the bounds
  returned by \<open>calculate_fp_coeff\<close> satisfy \<open>Fp_max = 16/3 * Fp_min\<close>, that is
  \<open>Fp_min = 0.375 * Fp_max / 2\<close>.
\<close>

theorem fp_max_sixteen_thirds_fp_min:
  assumes "0 \<le> SDS" "0 \<le> Ip" "Rmu \<noteq> 0" "Rpo \<noteq> 0"
  shows "\<exists>Fp Fp_calc Fp_min Fp_max.
     calculate_fp_coeff SDS Ip Wp Hf Rmu CAR Rpo = Inr (Fp, Fp_calc, Fp_min, Fp_max) \<and>
     Fp_max = 16 / 3 * Fp_min \<and> Fp_min = 0.375 * Fp_max / 2"
proof (intro exI conjI)
  show "calculate_fp_coeff SDS Ip Wp Hf Rmu CAR Rpo =
    Inr (max (min (0.4 * SDS * Ip * (Hf / Rmu) * (CAR / Rpo)) (1.6 * SDS * Ip)) (0.3 * SDS * Ip),
         0.4 * SDS * Ip * (Hf / Rmu) * (CAR / Rpo), 0.3 * SDS * Ip, 1.6 * SDS * Ip)"
    using assms(3,4) by (rule fp_coeff_returns)
qed simp_all

theorem fp_max_sixteen_thirds_fp_min_witness:
  "(0::real) \<le> 2 \<and> (0::real) \<le> 1.5 \<and> (1.3::real) \<noteq> 0 \<and> (1.5::real) \<noteq> 0 \<and>
   calculate_fp_coeff 2 1.5 1 3.5 1.3 1 1.5 = Inr (28 / 13, 28 / 13, 0.9, 4.8) \<and>
   (4.8::real) = 16 / 3 * 0.9"
  using fp_max_sixteen_thirds_fp_min [of 2 "1.5" "1.3" "1.5" 1 "3.5" 1]
  by (simp add: calculate_fp_coeff_def py_bind_def py_div_def Let_def)

text \<open>
  C9. The result of \<open>calculate_fp_coeff\<close> does not depend on \<open>Wp\<close>: two calls that differ
  in \<open>Wp\<close> only return the same quadruple, or raise the same error.
\<close>

theorem calculate_fp_coeff_ignores_Wp:
  "calculate_fp_coeff SDS Ip Wp1 Hf Rmu CAR Rpo = calculate_fp_coeff SDS Ip Wp2 Hf Rmu CAR Rpo"
  by (simp add: calculate_fp_coeff_def)

section \<open>Demand reduction factor\<close>

text \<open>
  C2. If \<open>Ie * Omega_0 = 0\<close>, \<open>calculate_rmu\<close> returns exactly \<open>1.3\<close>. Otherwise, when the
  radicand \<open>1.1 * R / (Ie * Omega_0)\<close> is not negative, it returns the larger of its square
  root and \<open>1.3\<close>. Every value it returns is at least \<open>1.3\<close>, and it never raises
  \<^verbatim>\<open>ZeroDivisionError\<close>.
\<close>

theorem calculate_rmu_floor:
  "(Ie * Omega_0 = 0 \<longrightarrow> calculate_rmu R Ie Omega_0 = Inr 1.3) \<and>
   (Ie * Omega_0 \<noteq> 0 \<and> 0 \<le> 1.1 * R / (Ie * Omega_0) \<longrightarrow>
      calculate_rmu R Ie Omega_0 = Inr (max (sqrt (1.1 * R / (Ie * Omega_0))) 1.3)) \<and>
   (\<forall>v. calculate_rmu R Ie Omega_0 = Inr v \<longrightarrow> 1.3 \<le> v) \<and>
   calculate_rmu R Ie Omega_0 \<noteq> Inl ZeroDivisionError"
  by (auto simp: calculate_rmu_def rmu_body_def py_bind_def py_div_def py_sqrt_def
           split: if_splits)

text \<open>
  Both cases at concrete inputs: a zero overstrength factor, and \<open>R = 40\<close>, \<open>Ie = 11\<close>,
  \<open>Omega_0 = 1\<close>, where the radicand is \<open>4\<close>.
\<close>

theorem calculate_rmu_floor_witness:
  "calculate_rmu 0 1.5 0 = Inr 1.3 \<and> calculate_rmu 40 11 1 = Inr 2"
  using calculate_rmu_floor [of "1.5" 0 0] calculate_rmu_floor [of 11 1 40] by simp

section \<open>Height amplification\<close>

lemma calculate_hf_guard:
  assumes "ta \<le> 0 \<or> h \<le> 0"
  shows "calculate_hf z h (Some ta) = Inr (HfBare 3.5)"
  using assms by (simp add: calculate_hf_def)

lemma calculate_hf_returns:
  assumes "h \<noteq> 0 \<or> Ta \<noteq> None"
  shows "\<exists>r. calculate_hf z h Ta = Inr r"
  using assms
  by (cases Ta) (auto simp: calculate_hf_def py_bind_def py_div_def Let_def)

text \<open>
  C3. With \<open>Ta\<close> present and \<open>Ta \<le> 0\<close> the claim expects the triple \<open>(3.5, absent, absent)\<close>.
  The guard of \<open>calculate_hf\<close> returns the bare number \<open>3.5\<close>: at \<open>z = 1\<close>, \<open>h = 1\<close>,
  \<open>Ta = 0\<close> the result is no triple.
\<close>

theorem calculate_hf_guard_returns_bare_number:
  "calculate_hf 1 1 (Some 0) = Inr (HfBare 3.5) \<and>
   calculate_hf 1 1 (Some 0) \<noteq> Inr (HfTriple 3.5 None None)"
  by (simp add: calculate_hf_def)

text \<open>
  C4. The claim expects a result for every numeric input. With \<open>Ta\<close> absent and \<open>h = 0\<close>
  the division \<open>z / h\<close> raises \<^verbatim>\<open>ZeroDivisionError\<close>.
\<close>

theorem calculate_hf_zero_height_raises:
  "calculate_hf 0 0 None = Inl ZeroDivisionError"
  by (simp add: calculate_hf_def py_bind_def py_div_def)

text \<open>
  C10. With \<open>Ta\<close> absent, \<open>h > 0\<close> and \<open>z \<ge> 0\<close>, \<open>calculate_hf\<close> returns
  \<open>Hf = 1 + 2.5 * (min z h / h)\<close> with both shape coefficients absent; \<open>Hf\<close> lies between
  \<open>1\<close> and \<open>3.5\<close>, and it is \<open>3.5\<close> exactly when \<open>z \<ge> h\<close>.
\<close>

theorem calculate_hf_absent_Ta_bounded:
  assumes "0 < h" "0 \<le> z"
  shows "calculate_hf z h None = Inr (HfTriple (1 + 2.5 * (min z h / h)) None None) \<and>
     1 \<le> 1 + 2.5 * (min z h / h) \<and> 1 + 2.5 * (min z h / h) \<le> 3.5 \<and>
     (1 + 2.5 * (min z h / h) = 3.5 \<longleftrightarrow> h \<le> z)"
proof -
  have a: "calculate_hf z h None = Inr (HfTriple (1 + 2.5 * (min z h / h)) None None)"
    using assms by (simp add: calculate_hf_def py_bind_def py_div_def min_def Let_def)
  have b: "0 \<le> min z h / h" using assms by simp
  have c: "min z h / h \<le> 1" using assms by simp
  have d: "(min z h / h = 1) = (h \<le> z)" using assms by (auto simp: min_def)
  have e: "(1 + 2.5 * (min z h / h) = 3.5) = (min z h / h = 1)" by linarith
  have f: "1 \<le> 1 + 2.5 * (min z h / h)" using b by linarith
  have g: "1 + 2.5 * (min z h / h) \<le> 3.5" using c by linarith
  show ?thesis using a d e f g by blast
qed

text \<open>At \<open>h = 60\<close>: an attachment at \<open>z = 24\<close> gives \<open>Hf = 2\<close>, one at \<open>z = 90\<close> gives \<open>3.5\<close>.\<close>

theorem calculate_hf_absent_Ta_bounded_witness:
  "(0::real) < 60 \<and> (0::real) \<le> 24 \<and> (0::real) \<le> 90 \<and>
   calculate_hf 24 60 None = Inr (HfTriple 2 None None) \<and>
   calculate_hf 90 60 None = Inr (HfTriple 3.5 None None)"
  using calculate_hf_absent_Ta_bounded [of 60 24] calculate_hf_absent_Ta_bounded [of 60 90]
  by simp

section \<open>Table lookups\<close>

lemma sfrs_rows_norm:
  assumes "lower (strip k) = lower (strip k')"
  shows "sfrs_rows rs k = sfrs_rows rs k'"
  using assms by (induction rs) (simp_all cong: if_cong)

lemma component_rows_norm:
  assumes "lower (strip k) = lower (strip k')"
  shows "component_rows key rs k loc = component_rows key rs k' loc"
  using assms by (induction rs) (simp_all cong: if_cong)

lemma ta_rows_norm:
  assumes "lower (strip k) = lower (strip k')"
  shows "ta_rows rs k hn = ta_rows rs k' hn"
  using assms by (induction rs) (simp_all cong: if_cong)

text \<open>Normal forms of the names used in the examples below.\<close>

lemma norm_padded: "lower (strip '' Steel Frame '') = ''steel frame''"
  by code_simp

lemma norm_plain: "lower (strip ''steel frame'') = ''steel frame''"
  by code_simp

lemma norm_cell: "lower (strip ''STEEL frame  '') = ''steel frame''"
  by code_simp

lemma norm_ceilings: "lower (strip ''Ceilings'') = ''ceilings''"
  by code_simp

lemma norm_partitions: "lower (strip ''Partitions'') = ''partitions''"
  by code_simp

lemma sfrs_example:
  "get_sfrs_factors
     [[''SFRS'' \<mapsto> PStr ''STEEL frame  '', ''R'' \<mapsto> PNum 8, ''Omega'' \<mapsto> PNum 3]]
     (Some ''steel frame'') = Inr (PNum 8, PNum 3)"
  by (simp add: get_sfrs_factors_def py_bind_def getitem_def norm_plain norm_cell)

lemma component_example:
  "get_component_factors
     [[''Components'' \<mapsto> PStr ''STEEL frame  '', ''CAR_above'' \<mapsto> PNum 2.2,
       ''CAR_below'' \<mapsto> PNone, ''Rpo'' \<mapsto> PNone]]
     (Some ''steel frame'') ''Supported Above Grade'' = Inr (PNum 2.2, PNum 1.5)"
  by (simp add: get_component_factors_def py_bind_def getitem_def py_or_def norm_plain norm_cell)

lemma ta_example:
  "calculate_ta
     [[''Structure Type '' \<mapsto> PStr ''STEEL frame  '', ''Ct'' \<mapsto> PNum 0.02, ''x'' \<mapsto> PNum 0.75]]
     (Some ''steel frame'') 1 = Inr (PNum 0.02, PNum 0.02, PNum 0.75)"
  by (simp add: calculate_ta_def py_bind_def getitem_def norm_plain norm_cell)

text \<open>
  C8. Two present keys with the same trimmed, lower-cased form get the same result (the
  same values, or the same error) from \<open>get_sfrs_factors\<close>, from \<open>get_component_factors\<close>
  with the same location flag, and from \<open>calculate_ta\<close> with the same height, on every
  table.
\<close>

theorem lookups_normalize_key:
  assumes "lower (strip k) = lower (strip k')"
  shows "get_sfrs_factors sfrs_data (Some k) = get_sfrs_factors sfrs_data (Some k') \<and>
     get_component_factors component_data (Some k) location =
       get_component_factors component_data (Some k') location \<and>
     calculate_ta period_data (Some k) hn = calculate_ta period_data (Some k') hn"
  using sfrs_rows_norm [OF assms] component_rows_norm [OF assms] ta_rows_norm [OF assms]
  by (simp add: get_sfrs_factors_def get_component_factors_def calculate_ta_def
           split: list.split)

text \<open>
  The keys \<^verbatim>\<open>" Steel Frame "\<close> and \<^verbatim>\<open>"steel frame"\<close> find the same row in each of the
  three tables.
\<close>

theorem lookups_normalize_key_witness:
  "lower (strip '' Steel Frame '') = lower (strip ''steel frame'') \<and>
   get_sfrs_factors
     [[''SFRS'' \<mapsto> PStr ''STEEL frame  '', ''R'' \<mapsto> PNum 8, ''Omega'' \<mapsto> PNum 3]]
     (Some '' Steel Frame '') = Inr (PNum 8, PNum 3) \<and>
   get_component_factors
     [[''Components'' \<mapsto> PStr ''STEEL frame  '', ''CAR_above'' \<mapsto> PNum 2.2,
       ''CAR_below'' \<mapsto> PNone, ''Rpo'' \<mapsto> PNone]]
     (Some '' Steel Frame '') ''Supported Above Grade'' = Inr (PNum 2.2, PNum 1.5) \<and>
   calculate_ta
     [[''Structure Type '' \<mapsto> PStr ''STEEL frame  '', ''Ct'' \<mapsto> PNum 0.02, ''x'' \<mapsto> PNum 0.75]]
     (Some '' Steel Frame '') 1 = Inr (PNum 0.02, PNum 0.02, PNum 0.75)"
proof -
  have eq: "lower (strip '' Steel Frame '') = lower (strip ''steel frame'')"
    by (simp only: norm_padded norm_plain)
  show ?thesis
    using lookups_normalize_key [OF eq] eq sfrs_example component_example ta_example by simp
qed

lemma get_component_factors_absent:
  "get_component_factors component_data None location = Inr (PNum 1, PNum 1)"
  by (simp add: get_component_factors_def)

lemma component_rows_miss:
  assumes "\<forall>r \<in> set rs. \<exists>s. r key = Some (PStr s) \<and> lower (strip s) \<noteq> lower (strip k)"
  shows "component_rows key rs k loc = Inr (PNum 1, PNum 1)"
  using assms by (induction rs) (auto simp: py_bind_def getitem_def)

text \<open>
  C5. The claim expects the fallback \<open>(1.0, 1.0)\<close> on every table, the empty one included,
  when the key is present and matches no row. On the empty table the read of
  \<^verbatim>\<open>component_data[0]\<close> raises \<^verbatim>\<open>IndexError\<close> before any row is compared.
\<close>

theorem get_component_factors_empty_table_raises:
  "get_component_factors [] (Some ''Partitions'') ''Supported Above Grade'' = Inl IndexError"
  by (simp add: get_component_factors_def)

section \<open>The end-to-end scenario\<close>

text \<open>
  C6, as the claim states it: with no component match the factors are taken to be
  \<open>CAR = 1.0\<close>, \<open>Rpo = 1.5\<close> and \<open>Fp_calc = 1.4 / 1.3\<close>. A lookup that matches no row
  returns \<open>(1.0, 1.0)\<close>, and with these factors \<open>Fp_calc\<close> is \<open>21 / 13\<close>.
\<close>

theorem scenario_lookup_miss_counterexample:
  "get_component_factors
     [[''Component'' \<mapsto> PStr ''Ceilings'', ''CAR_above'' \<mapsto> PNum 1,
       ''CAR_below'' \<mapsto> PNum 1, ''Rpo'' \<mapsto> PNum 1.5]]
     (Some ''Partitions'') ''Supported Above Grade'' = Inr (PNum 1, PNum 1) \<and>
   calculate_fp_coeff 1 1.5 1 3.5 1.3 1 1 = Inr (21 / 13, 21 / 13, 0.45, 2.4) \<and>
   (21 / 13 :: real) \<noteq> 1.4 / 1.3"
  by (simp add: get_component_factors_def py_bind_def getitem_def norm_ceilings norm_partitions
        calculate_fp_coeff_def py_div_def Let_def)

text \<open>
  C6, amended. For \<open>SDS = 1.0\<close>, \<open>Ip = 1.5\<close>, \<open>h = 60\<close>, \<open>z = 60\<close>, \<open>Ta\<close> absent, \<open>R = 0\<close>,
  \<open>Omega_0 = 0\<close>, and the factors \<open>CAR = 1.0\<close>, \<open>Rpo = 1.5\<close> given as such:
  \<open>calculate_hf\<close> yields \<open>Hf = 3.5\<close>, \<open>calculate_rmu\<close> yields \<open>1.3\<close>, and
  \<open>calculate_fp_coeff\<close> yields \<open>Fp_calc = 1.4 / 1.3\<close>, \<open>Fp_min = 0.45\<close>, \<open>Fp_max = 2.4\<close>
  and \<open>Fp = Fp_calc\<close>, unclamped.
\<close>

theorem scenario_given_factors:
  "calculate_hf 60 60 None = Inr (HfTriple 3.5 None None) \<and>
   calculate_rmu 0 Ie 0 = Inr 1.3 \<and>
   calculate_fp_coeff 1 1.5 Wp 3.5 1.3 1 1.5 = Inr (1.4 / 1.3, 1.4 / 1.3, 0.45, 2.4)"
  by (simp add: calculate_hf_def calculate_rmu_def rmu_body_def calculate_fp_coeff_def
        py_bind_def py_div_def Let_def)

end
